theory Spec2Isabelle
  imports Complex_Main "HOL-Library.AList"
begin

section \<open>Strings as the two programs use them\<close>

text \<open>
  Python \<open>str\<close> and \<open>bytes\<close> values are modelled as \<open>string\<close> (a list of 8-bit
  characters). File names, header values and file contents are all of this type.
\<close>

type_synonym bytes = string

text \<open>\<open>s.startswith(p)\<close>\<close>

definition startswith :: "string \<Rightarrow> string \<Rightarrow> bool" where
  "startswith p s = (take (length p) s = p)"

text \<open>\<open>s.lower()\<close>, on the ASCII letters (no other 8-bit character lowers to an ASCII one).\<close>

definition lower_char :: "char \<Rightarrow> char" where
  "lower_char c =
     (case map_of (zip ''ABCDEFGHIJKLMNOPQRSTUVWXYZ'' ''abcdefghijklmnopqrstuvwxyz'') c of
        Some l \<Rightarrow> l
      | None \<Rightarrow> c)"

definition lower :: "string \<Rightarrow> string" where
  "lower s = map lower_char s"

text \<open>\<open>s.split(c)\<close> for a one-character separator: never empty, one more piece than separators.\<close>

fun split_on :: "char \<Rightarrow> string \<Rightarrow> string list" where
  "split_on c [] = [[]]"
| "split_on c (x # xs) =
     (if x = c then [] # split_on c xs
      else (case split_on c xs of
              [] \<Rightarrow> [[x]]
            | g # gs \<Rightarrow> (x # g) # gs))"

text \<open>\<open>os.path.basename\<close> (POSIX): what follows the last slash.\<close>

definition basename :: "string \<Rightarrow> string" where
  "basename p = last (split_on (CHR ''/'') p)"

text \<open>
  \<open>os.path.splitext\<close> on a name without a slash: split at the last dot, unless only dots
  precede it. The source applies it to \<open>output_dir/filename\<close>; \<open>splitext\<close> looks only past
  the last slash, so the directory prefix stays on the base and the model keeps names relative
  to the directory.
\<close>

definition splitext :: "string \<Rightarrow> string \<times> string" where
  "splitext n =
     (if CHR ''.'' \<notin> set n then (n, [])
      else
        (let ext = CHR ''.'' # rev (takeWhile (\<lambda>c. c \<noteq> CHR ''.'') (rev n));
             base = rev (tl (dropWhile (\<lambda>c. c \<noteq> CHR ''.'') (rev n)))
         in if list_all (\<lambda>c. c = CHR ''.'') base then (n, []) else (base, ext)))"

text \<open>\<open>os.path.join(a, b)\<close> (POSIX).\<close>

definition path_join :: "string \<Rightarrow> string \<Rightarrow> string" where
  "path_join a b =
     (if startswith ''/'' b then b
      else if a = [] \<or> last a = CHR ''/'' then a @ b
      else a @ ''/'' @ b)"

text \<open>The decimal text of a counter, as \<open>f"{counter}"\<close> gives it.\<close>

definition digit_char :: "nat \<Rightarrow> char" where
  "digit_char n = ''0123456789'' ! n"

fun str_nat :: "nat \<Rightarrow> string" where
  "str_nat n = (if n < 10 then [digit_char n] else str_nat (n div 10) @ [digit_char (n mod 10)])"

declare str_nat.simps [simp del]

text \<open>
  \<open>int(s)\<close> on a header value (a \<open>str\<close> of Latin-1 characters): surrounding whitespace is
  stripped, one sign is allowed, then decimal digits, where single underscores may separate
  digits; more than 4300 digits are refused. \<open>None\<close> is \<open>ValueError\<close>. The whitespace of
  \<open>int\<close> is that of C (tab to carriage return, and the space) and, of the characters above
  127, the two that Unicode counts as spaces; the separators \<open>0x1C\<close> to \<open>0x1F\<close>, which
  \<open>str.strip\<close> removes, are not among them.
\<close>

definition is_space :: "char \<Rightarrow> bool" where
  "is_space c = (c \<in> set [CHR 0x09, CHR 0x0A, CHR 0x0B, CHR 0x0C, CHR 0x0D, CHR 0x20,
                            CHR 0x85, CHR 0xA0])"

definition strip :: "string \<Rightarrow> string" where
  "strip s = rev (dropWhile is_space (rev (dropWhile is_space s)))"

definition digit_val :: "char \<Rightarrow> nat option" where
  "digit_val c = map_of (zip ''0123456789'' [0, 1, 2, 3, 4, 5, 6, 7, 8, 9]) c"

fun digits_val :: "nat \<Rightarrow> string \<Rightarrow> nat option" where
  "digits_val acc [] = Some acc"
| "digits_val acc (c # cs) =
     (case digit_val c of None \<Rightarrow> None | Some v \<Rightarrow> digits_val (10 * acc + v) cs)"

definition py_nat :: "string \<Rightarrow> nat option" where
  "py_nat s =
     (let groups = split_on (CHR ''_'') s
      in if [] \<in> set groups \<or> 4300 < length (concat groups) then None
         else digits_val 0 (concat groups))"

definition py_int :: "string \<Rightarrow> int option" where
  "py_int s =
     (case strip s of
        [] \<Rightarrow> None
      | c # cs \<Rightarrow>
          if c = CHR ''-'' then map_option (\<lambda>n. - int n) (py_nat cs)
          else if c = CHR ''+'' then map_option int (py_nat cs)
          else map_option int (py_nat (c # cs)))"


section \<open>The directory the programs write to\<close>

text \<open>
  A directory is its listing: names with what they hold, in the order \<open>os.listdir\<close> returns
  them. Names are the bytes the file system stores. A regular file carries its bytes and
  whether the process may read it (\<open>open(p, 'rb')\<close> raises \<open>PermissionError\<close> otherwise); a
  sub-directory is \<open>Dir\<close>. A path used as an output directory is absent, absent where the
  process cannot create it, something that is not a directory, a folder, or a folder in which
  the process can neither create nor replace, remove or rename an entry (a read-only or full
  file system, a missing permission).

  The exceptions are those the two programs can meet, all of them subclasses of
  \<open>Exception\<close>; \<open>OSError\<close> stands for the errors of the operating system that have no
  class of their own here (name too long, read-only file system, no space left).
\<close>

datatype exn =
    ValueError | RequestException | FileExistsError | IsADirectoryError
  | PermissionError | FileNotFoundError | IndexError | RenderError
  | OSError | UnicodeEncodeError

datatype node = File (readable: bool) (stored: bytes) | Dir

type_synonym directory = "(string \<times> node) list"

datatype path_state =
  Absent | Uncreatable | NotADirectory | Folder directory | Unwritable directory

definition refuses_writes :: "path_state \<Rightarrow> bool" where
  "refuses_writes st = (case st of Unwritable d \<Rightarrow> True | _ \<Rightarrow> False)"

text \<open>
  A name a file can be created under: at most \<open>NAME_MAX = 255\<close> bytes, none of them zero.
\<close>

definition name_ok :: "string \<Rightarrow> bool" where
  "name_ok n = (length n \<le> 255 \<and> CHR 0x00 \<notin> set n)"

definition listdir :: "directory \<Rightarrow> string list" where
  "listdir d = map fst d"

text \<open>\<open>os.path.exists(output_dir/n)\<close>: the two dot names always exist.\<close>

definition path_exists :: "directory \<Rightarrow> string \<Rightarrow> bool" where
  "path_exists d n = (n \<in> set (listdir d) \<or> n = ''.'' \<or> n = ''..'')"

text \<open>\<open>os.path.isfile(output_dir/n)\<close>\<close>

definition isfile :: "directory \<Rightarrow> string \<Rightarrow> bool" where
  "isfile d n = (case map_of d n of Some (File r b) \<Rightarrow> True | _ \<Rightarrow> False)"

text \<open>\<open>os.makedirs(p, exist_ok=True)\<close>\<close>

definition makedirs :: "path_state \<Rightarrow> exn + directory" where
  "makedirs st =
     (case st of
        Absent \<Rightarrow> Inr []
      | Uncreatable \<Rightarrow> Inl OSError
      | Folder d \<Rightarrow> Inr d
      | Unwritable d \<Rightarrow> Inr d
      | NotADirectory \<Rightarrow> Inl FileExistsError)"

text \<open>
  \<open>with open(p, 'wb') as f: f.write(b)\<close>, and \<open>plt.savefig(p)\<close>, in a folder that refuses
  writes (\<open>ro\<close>) or not. A name with a zero byte is refused by Python, a name longer than
  \<open>NAME_MAX\<close> by the system; a directory cannot be opened; nothing can be written where writes
  are refused. Otherwise a new file is created readable, and an existing file is truncated and
  keeps its mode.
\<close>

definition write_file :: "bool \<Rightarrow> string \<Rightarrow> bytes \<Rightarrow> directory \<Rightarrow> exn + directory" where
  "write_file ro n b d =
     (if CHR 0x00 \<in> set n then Inl ValueError
      else if 255 < length n then Inl OSError
      else (case map_of d n of
              Some Dir \<Rightarrow> Inl IsADirectoryError
            | Some (File r old) \<Rightarrow> if ro then Inl OSError else Inr (AList.update n (File r b) d)
            | None \<Rightarrow> if ro then Inl OSError else Inr (AList.update n (File True b) d)))"

text \<open>\<open>os.remove(p)\<close>\<close>

definition remove :: "bool \<Rightarrow> string \<Rightarrow> directory \<Rightarrow> exn + directory" where
  "remove ro n d =
     (case map_of d n of
        None \<Rightarrow> Inl FileNotFoundError
      | Some (File r b) \<Rightarrow> if ro then Inl OSError else Inr (AList.delete n d)
      | Some Dir \<Rightarrow> Inl IsADirectoryError)"

text \<open>\<open>os.rename(old, new)\<close> (POSIX: an existing file at \<open>new\<close> is replaced).\<close>

definition rename :: "bool \<Rightarrow> string \<Rightarrow> string \<Rightarrow> directory \<Rightarrow> exn + directory" where
  "rename ro old new d =
     (case map_of d old of
        None \<Rightarrow> Inl FileNotFoundError
      | Some x \<Rightarrow>
          if CHR 0x00 \<in> set new then Inl ValueError
          else if 255 < length new then Inl OSError
          else if map_of d new = Some Dir then Inl IsADirectoryError
          else if ro then Inl OSError
          else Inr (AList.update new x (AList.delete old d)))"

subsection \<open>\<open>calculate_file_hash\<close>\<close>

text \<open>
  \<open>iter(lambda: f.read(4096), b'')\<close>: the successive reads of at most \<open>n\<close> bytes, up to the
  first empty one.
\<close>

fun read_chunks :: "nat \<Rightarrow> bytes \<Rightarrow> bytes list" where
  "read_chunks n b = (if n = 0 \<or> b = [] then [] else take n b # read_chunks n (drop n b))"

declare read_chunks.simps [simp del]

text \<open>
  The SHA-256 object is the bytes fed to it so far; \<open>hexdigest\<close> applies the digest function
  \<open>H\<close> to them. \<open>H\<close> stands for SHA-256 and is a parameter of everything below.
\<close>

type_synonym digest = string

definition sha256_update :: "bytes \<Rightarrow> bytes \<Rightarrow> bytes" where
  "sha256_update chunk fed = fed @ chunk"

definition calculate_file_hash :: "(bytes \<Rightarrow> digest) \<Rightarrow> directory \<Rightarrow> string \<Rightarrow> exn + digest" where
  "calculate_file_hash H d n =
     (case map_of d n of
        None \<Rightarrow> Inl FileNotFoundError
      | Some Dir \<Rightarrow> Inl IsADirectoryError
      | Some (File r b) \<Rightarrow>
          if r then Inr (H (fold sha256_update (read_chunks 4096 b) []))
          else Inl PermissionError)"


subsection \<open>\<open>get_unique_filename\<close>\<close>

text \<open>The candidate name \<open>f"{base}_{counter}{ext}"\<close>.\<close>

definition suffixed :: "string \<Rightarrow> string \<Rightarrow> nat \<Rightarrow> string" where
  "suffixed base ext counter = base @ ''_'' @ str_nat counter @ ext"

text \<open>
  The \<open>while True\<close> loop ends because a directory holds finitely many names and distinct
  counters give distinct candidates; the facts below are what its termination proof needs.
\<close>

lemma digit_char_inj: "i < 10 \<Longrightarrow> j < 10 \<Longrightarrow> digit_char i = digit_char j \<Longrightarrow> i = j"
proof -
  assume a: "i < 10" "j < 10" "digit_char i = digit_char j"
  have d: "distinct ''0123456789''" by simp
  have l: "length ''0123456789'' = 10" by simp
  from a d l show ?thesis unfolding digit_char_def
    by (metis nth_eq_iff_index_eq)
qed

lemma str_nat_nonempty: "str_nat n \<noteq> []"
  by (subst str_nat.simps) simp

lemma str_nat_last: "last (str_nat n) = digit_char (n mod 10)"
  by (subst str_nat.simps) simp

lemma str_nat_butlast: "butlast (str_nat n) = (if n < 10 then [] else str_nat (n div 10))"
  by (subst str_nat.simps) simp

lemma str_nat_inj: "str_nat m = str_nat n \<Longrightarrow> m = n"
proof (induction m arbitrary: n rule: str_nat.induct)
  case (1 m)
  from "1.prems" have "digit_char (m mod 10) = digit_char (n mod 10)"
    by (metis str_nat_last)
  then have lm: "m mod 10 = n mod 10" by (intro digit_char_inj) auto
  from "1.prems" have b: "butlast (str_nat m) = butlast (str_nat n)" by simp
  show ?case
  proof (cases "m < 10")
    case True
    with b have "n < 10" using str_nat_nonempty[of "n div 10"]
      by (auto simp: str_nat_butlast split: if_splits)
    with True lm show ?thesis by simp
  next
    case False
    with b have n: "\<not> n < 10" using str_nat_nonempty[of "m div 10"]
      by (auto simp: str_nat_butlast split: if_splits)
    with False b have "str_nat (m div 10) = str_nat (n div 10)" by (simp add: str_nat_butlast)
    with "1.IH" False have "m div 10 = n div 10" by simp
    with lm show ?thesis by (metis div_mult_mod_eq)
  qed
qed

lemma suffixed_inj: "suffixed base ext i = suffixed base ext j \<Longrightarrow> i = j"
  by (simp add: suffixed_def str_nat_inj)

lemma finite_taken: "finite {k. path_exists d (suffixed base ext k)}"
proof -
  have "finite (set (''.'' # ''..'' # listdir d))" by simp
  moreover have "inj (suffixed base ext)" by (rule injI) (rule suffixed_inj)
  ultimately have "finite (suffixed base ext -` set (''.'' # ''..'' # listdir d))"
    by (rule finite_vimageI)
  moreover have "{k. path_exists d (suffixed base ext k)}
                 = suffixed base ext -` set (''.'' # ''..'' # listdir d)"
    by (auto simp: path_exists_def)
  ultimately show ?thesis by simp
qed

function find_free :: "directory \<Rightarrow> string \<Rightarrow> string \<Rightarrow> nat \<Rightarrow> string" where
  "find_free d base ext counter =
     (let new_filepath = suffixed base ext counter
      in if \<not> path_exists d new_filepath then new_filepath
         else find_free d base ext (counter + 1))"
  by pat_completeness auto
termination
proof (relation "measure (\<lambda>(d, base, ext, counter).
                   card {k. counter \<le> k \<and> path_exists d (suffixed base ext k)})")
  show "wf (measure (\<lambda>(d, base, ext, counter).
              card {k. counter \<le> k \<and> path_exists d (suffixed base ext k)}))"
    by simp
next
  fix d base ext counter x
  assume x: "x = suffixed base ext counter" and ex: "\<not> \<not> path_exists d x"
  let ?A = "{k. counter + 1 \<le> k \<and> path_exists d (suffixed base ext k)}"
  let ?B = "{k. counter \<le> k \<and> path_exists d (suffixed base ext k)}"
  have fin: "finite ?B" using finite_taken[of d base ext] by (rule rev_finite_subset) auto
  have "counter \<in> ?B" "counter \<notin> ?A" using x ex by auto
  moreover have "?A \<subseteq> ?B" by auto
  ultimately have "?A \<subset> ?B" by blast
  with fin have "card ?A < card ?B" by (rule psubset_card_mono)
  then show "((d, base, ext, counter + 1), (d, base, ext, counter))
             \<in> measure (\<lambda>(d, base, ext, counter).
                 card {k. counter \<le> k \<and> path_exists d (suffixed base ext k)})"
    by simp
qed

declare find_free.simps [simp del]

definition get_unique_filename :: "directory \<Rightarrow> string \<Rightarrow> string" where
  "get_unique_filename d filepath =
     (if \<not> path_exists d filepath then filepath
      else (case splitext filepath of (base, ext) \<Rightarrow> find_free d base ext 1))"

section \<open>The image fetcher (\<open>Libraries.py\<close>)\<close>

text \<open>
  What the process prints, and the state the functions act on: the directories by path, and
  standard output.
\<close>

datatype line =
    InvalidSchemeLine string
  | NotAnImageLine string "string option"
  | TooLargeLine string
  | DuplicateLine string string
  | FetchedLine string
  | SavedLine string
  | ConnectionErrorLine string
  | ErrorLine string exn
  | Text string
  | Observation string "real option"

record world =
  disk :: "string \<Rightarrow> path_state"
  stdout :: "line list"

text \<open>
  \<open>print\<close> encodes its text for standard output and writes it, and can fail there: every
  line of the fetcher starts with a check mark or a cross, which an ASCII or Latin-1 output
  cannot encode, and carries the URL or a file name; a closed or broken output raises too.
  What standard output does with a line is a parameter \<open>out\<close>: \<open>None\<close> when it prints the line,
  the exception \<open>print\<close> raises otherwise. A line that is printed is appended (\<open>say\<close>); a
  \<open>print\<close> that raises leaves the output as it was.
\<close>

definition say :: "line \<Rightarrow> world \<Rightarrow> world" where
  "say l w = w\<lparr>stdout := stdout w @ [l]\<rparr>"

definition print_line :: "(line \<Rightarrow> exn option) \<Rightarrow> line \<Rightarrow> world \<Rightarrow> exn + world" where
  "print_line out l w = (case out l of None \<Rightarrow> Inr (say l w) | Some e \<Rightarrow> Inl e)"

text \<open>Several \<open>print\<close> calls in a row: the first that fails ends them, with what was printed.\<close>

fun print_lines :: "(line \<Rightarrow> exn option) \<Rightarrow> line list \<Rightarrow> world \<Rightarrow> (exn \<times> world) + world" where
  "print_lines out [] w = Inr w"
| "print_lines out (l # ls) w =
     (case print_line out l w of
        Inl e \<Rightarrow> Inl (e, w)
      | Inr w' \<Rightarrow> print_lines out ls w')"

definition put_dir :: "string \<Rightarrow> directory \<Rightarrow> world \<Rightarrow> world" where
  "put_dir p d w = w\<lparr>disk := (disk w)(p := Folder d)\<rparr>"

text \<open>
  One invocation sees the outside through three library calls, whose results are inputs of the
  model: \<open>urlparse(url)\<close> (\<open>None\<close>: it raised \<open>ValueError\<close>), \<open>requests.get\<close> (\<open>None\<close>: it
  raised a \<open>RequestException\<close>) and \<open>datetime.now().strftime(...)\<close>.
\<close>

record parsed_url =
  scheme :: string
  path :: string

record response =
  status_code :: nat
  content_type :: "string option"
  content_length :: "string option"
  content :: bytes

record call =
  url :: string
  urlparse_result :: "parsed_url option"
  get_result :: "response option"
  timestamp :: string

definition is_valid_image_content_type :: "response \<Rightarrow> bool" where
  "is_valid_image_content_type r =
     startswith ''image/'' (lower (case content_type r of None \<Rightarrow> [] | Some s \<Rightarrow> s))"

text \<open>Lines 51-52: \<open>content_length and int(content_length) > 10 * 1024 * 1024\<close>.\<close>

definition declared_too_large :: "response \<Rightarrow> exn + bool" where
  "declared_too_large r =
     (case content_length r of
        None \<Rightarrow> Inr False
      | Some s \<Rightarrow>
          if s = [] then Inr False
          else (case py_int s of
                  None \<Rightarrow> Inl ValueError
                | Some n \<Rightarrow> Inr (n > 10 * 1024 * 1024)))"

text \<open>Lines 57-61.\<close>

definition derive_filename :: "parsed_url \<Rightarrow> response \<Rightarrow> string \<Rightarrow> string" where
  "derive_filename p r stamp =
     (let filename = basename (path p)
      in if filename = [] \<or> CHR ''.'' \<notin> set filename then
           (let ct = (case content_type r of None \<Rightarrow> ''image/jpeg'' | Some s \<Rightarrow> s);
                ext = (if CHR ''/'' \<in> set ct then last (split_on (CHR ''/'') ct) else ''jpg'')
            in ''image_'' @ stamp @ ''.'' @ ext)
         else filename)"

text \<open>
  Lines 36-61, up to the first file-system call: an exception, a printed rejection with
  \<open>return False\<close>, or the file name and the bytes to store.
\<close>

datatype verdict = Raised exn | Rejected line | Accepted string bytes

definition validate :: "call \<Rightarrow> verdict" where
  "validate c =
     (case urlparse_result c of
        None \<Rightarrow> Raised ValueError
      | Some p \<Rightarrow>
          if scheme p \<noteq> ''http'' \<and> scheme p \<noteq> ''https'' then Rejected (InvalidSchemeLine (url c))
          else (case get_result c of
                  None \<Rightarrow> Raised RequestException
                | Some r \<Rightarrow>
                    if 400 \<le> status_code r \<and> status_code r < 600 then Raised RequestException
                    else if \<not> is_valid_image_content_type r
                      then Rejected (NotAnImageLine (url c) (content_type r))
                    else (case declared_too_large r of
                            Inl e \<Rightarrow> Raised e
                          | Inr True \<Rightarrow> Rejected (TooLargeLine (url c))
                          | Inr False \<Rightarrow>
                              Accepted (derive_filename p r (timestamp c)) (content r))))"

definition temp_name :: "string \<Rightarrow> string" where
  "temp_name filename = ''temp_'' @ filename"

text \<open>Lines 73-80: the scan of the listing; \<open>Some f\<close> is the first duplicate found.\<close>

fun find_duplicate ::
  "(bytes \<Rightarrow> digest) \<Rightarrow> digest \<Rightarrow> directory \<Rightarrow> string list \<Rightarrow> exn + string option" where
  "find_duplicate H file_hash d [] = Inr None"
| "find_duplicate H file_hash d (existing_file # rest) =
     (if startswith ''temp_'' existing_file then find_duplicate H file_hash d rest
      else if \<not> isfile d existing_file then find_duplicate H file_hash d rest
      else (case calculate_file_hash H d existing_file of
              Inl e \<Rightarrow> Inl e
            | Inr h \<Rightarrow>
                if h = file_hash then Inr (Some existing_file)
                else find_duplicate H file_hash d rest))"

text \<open>
  Lines 64-88. What was done to the directory before an exception stays done, so the state is
  returned on every path. The duplicate is reported before the temporary file is removed; the
  two success lines are printed after the rename.
\<close>

definition store_image_on ::
  "(line \<Rightarrow> exn option) \<Rightarrow> (bytes \<Rightarrow> digest) \<Rightarrow> string \<Rightarrow> string \<Rightarrow> string \<Rightarrow> bytes \<Rightarrow> world
     \<Rightarrow> (exn + bool) \<times> world" where
  "store_image_on out H u output_dir filename b w =
     (let ro = refuses_writes (disk w output_dir)
      in case makedirs (disk w output_dir) of
        Inl e \<Rightarrow> (Inl e, w)
      | Inr d0 \<Rightarrow>
          (case write_file ro (temp_name filename) b d0 of
             Inl e \<Rightarrow> (Inl e, if ro then w else put_dir output_dir d0 w)
           | Inr d1 \<Rightarrow>
               (case calculate_file_hash H d1 (temp_name filename) of
                  Inl e \<Rightarrow> (Inl e, put_dir output_dir d1 w)
                | Inr file_hash \<Rightarrow>
                    (case find_duplicate H file_hash d1 (listdir d1) of
                       Inl e \<Rightarrow> (Inl e, put_dir output_dir d1 w)
                     | Inr (Some existing_file) \<Rightarrow>
                         (case print_line out (DuplicateLine u existing_file)
                                 (put_dir output_dir d1 w) of
                            Inl e \<Rightarrow> (Inl e, put_dir output_dir d1 w)
                          | Inr w1 \<Rightarrow>
                              (case remove ro (temp_name filename) d1 of
                                 Inl e \<Rightarrow> (Inl e, w1)
                               | Inr d2 \<Rightarrow> (Inr False, put_dir output_dir d2 w1)))
                     | Inr None \<Rightarrow>
                         (case rename ro (temp_name filename)
                                 (get_unique_filename d1 filename) d1 of
                            Inl e \<Rightarrow> (Inl e, put_dir output_dir d1 w)
                          | Inr d2 \<Rightarrow>
                              (case print_lines out
                                      [FetchedLine filename,
                                       SavedLine (path_join output_dir
                                                    (get_unique_filename d1 filename))]
                                      (put_dir output_dir d2 w) of
                                 Inl (e, w1) \<Rightarrow> (Inl e, w1)
                               | Inr w1 \<Rightarrow> (Inr True, w1)))))))"

text \<open>The body of the \<open>try\<close>.\<close>

definition try_fetch_on ::
  "(line \<Rightarrow> exn option) \<Rightarrow> (bytes \<Rightarrow> digest) \<Rightarrow> call \<Rightarrow> string \<Rightarrow> world \<Rightarrow> (exn + bool) \<times> world" where
  "try_fetch_on out H c output_dir w =
     (case validate c of
        Raised e \<Rightarrow> (Inl e, w)
      | Rejected l \<Rightarrow>
          (case print_line out l w of
             Inl e \<Rightarrow> (Inl e, w)
           | Inr w' \<Rightarrow> (Inr False, w'))
      | Accepted filename b \<Rightarrow> store_image_on out H (url c) output_dir filename b w)"

text \<open>
  The line an \<open>except\<close> clause prints for the exception it caught (lines 90-95).
\<close>

definition handler_line :: "call \<Rightarrow> exn \<Rightarrow> line" where
  "handler_line c e =
     (if e = RequestException then ConnectionErrorLine (url c) else ErrorLine (url c) e)"

text \<open>
  \<open>fetch_and_save_image\<close> on a standard output that behaves as \<open>out\<close> says. The
  result is the boolean returned, or the exception that leaves the function: the \<open>print\<close>
  of an \<open>except\<close> clause is outside the \<open>try\<close>, so what it raises reaches the caller.
\<close>

definition fetch_and_save_image_on ::
  "(line \<Rightarrow> exn option) \<Rightarrow> (bytes \<Rightarrow> digest) \<Rightarrow> call \<Rightarrow> string \<Rightarrow> world \<Rightarrow> (exn + bool) \<times> world" where
  "fetch_and_save_image_on out H c output_dir w =
     (case try_fetch_on out H c output_dir w of
        (Inr ok, w') \<Rightarrow> (Inr ok, w')
      | (Inl e, w') \<Rightarrow>
          (case print_line out (handler_line c e) w' of
             Inl e' \<Rightarrow> (Inl e', w')
           | Inr w'' \<Rightarrow> (Inr False, w'')))"

text \<open>
  On a standard output that prints every line no \<open>print\<close> raises. These are the function
  and its parts there: the body of the \<open>try\<close> with every \<open>print\<close> succeeding, and the two
  \<open>except\<close> clauses, each printing its line and returning \<open>False\<close>. That
  \<open>fetch_and_save_image_on\<close> returns the same boolean and state on such an output is
  \<open>fetch_on_full_output\<close> below.
\<close>

definition store_image ::
  "(bytes \<Rightarrow> digest) \<Rightarrow> string \<Rightarrow> string \<Rightarrow> string \<Rightarrow> bytes \<Rightarrow> world \<Rightarrow> (exn + bool) \<times> world" where
  "store_image H u output_dir filename b w =
     store_image_on (\<lambda>l. None) H u output_dir filename b w"

definition try_fetch :: "(bytes \<Rightarrow> digest) \<Rightarrow> call \<Rightarrow> string \<Rightarrow> world \<Rightarrow> (exn + bool) \<times> world" where
  "try_fetch H c output_dir w = try_fetch_on (\<lambda>l. None) H c output_dir w"

definition fetch_and_save_image :: "(bytes \<Rightarrow> digest) \<Rightarrow> call \<Rightarrow> string \<Rightarrow> world \<Rightarrow> bool \<times> world" where
  "fetch_and_save_image H c output_dir w =
     (case try_fetch H c output_dir w of
        (Inr ok, w') \<Rightarrow> (ok, w')
      | (Inl e, w') \<Rightarrow> (False, say (handler_line c e) w'))"



section \<open>The dataset pipeline (\<open>Data_analysis.py\<close>)\<close>

text \<open>
  A row holds the four measurements and the label; \<open>None\<close> is a missing value (NaN).
  Measurements are real numbers: the rounding of floating point is not modelled. The label
  column is a pandas \<open>Categorical\<close>, so a table carries the categories its column declares
  besides its rows.
\<close>

record sample =
  sepal_length :: "real option"
  sepal_width :: "real option"
  petal_length :: "real option"
  petal_width :: "real option"

record row =
  measures :: sample
  species :: "string option"

record dataframe =
  categories :: "string list"
  rows :: "row list"

subsection \<open>\<open>analyze_data\<close>\<close>

text \<open>\<open>Series.mean()\<close>: missing values are skipped; the mean of nothing is NaN.\<close>

definition mean :: "real option list \<Rightarrow> real option" where
  "mean xs =
     (let ys = List.map_filter (\<lambda>x. x) xs
      in if ys = [] then None else Some (sum_list ys / real (length ys)))"

definition group_mean :: "row list \<Rightarrow> sample" where
  "group_mean rs =
     \<lparr>sepal_length = mean (map (\<lambda>r. sepal_length (measures r)) rs),
      sepal_width = mean (map (\<lambda>r. sepal_width (measures r)) rs),
      petal_length = mean (map (\<lambda>r. petal_length (measures r)) rs),
      petal_width = mean (map (\<lambda>r. petal_width (measures r)) rs)\<rparr>"

text \<open>
  \<open>df.groupby('species').mean()\<close> on a categorical column. The source passes no \<open>observed\<close>
  argument, and reads the result by position through \<open>Series[0]\<close> and \<open>Series[2]\<close>; the pandas
  releases that accept such positional reads group with \<open>observed=False\<close>: one group per
  declared category, in the declared order, whether or not a row carries it. Rows with a
  missing label belong to no group.
\<close>

definition groupby_mean :: "dataframe \<Rightarrow> (string \<times> sample) list" where
  "groupby_mean df =
     map (\<lambda>c. (c, group_mean (filter (\<lambda>r. species r = Some c) (rows df)))) (categories df)"

text \<open>A positional read, \<open>index[i]\<close> or \<open>series[i]\<close>: \<open>IndexError\<close> out of range.\<close>

definition at_position :: "'a list \<Rightarrow> nat \<Rightarrow> exn + 'a" where
  "at_position xs i = (if i < length xs then Inr (xs ! i) else Inl IndexError)"

text \<open>
  What \<open>analyze_data\<close> prints before it reads by position. The printed tables are kept as
  marker lines; their text is not modelled.
\<close>

definition analysis_lines :: "line list" where
  "analysis_lines =
     [Text ''=== Data Analysis ==='', Text ''Basic Statistics:'', Text ''df.describe()'',
      Text ''Mean values by species:'', Text ''group_means'', Text ''=== Observations ==='',
      Text ''- The dataset contains measurements for 150 iris flowers across three species.'',
      Text ''- Numerical columns: sepal length, sepal width, petal length, petal width (all in cm).'']"

text \<open>
  Lines 53 and 54 each read the index and then the column at one position before printing;
  an exception leaves the function at once, with what was printed so far. Nothing in the
  function catches anything.
\<close>

definition analyze_data_on ::
  "(line \<Rightarrow> exn option) \<Rightarrow> dataframe \<Rightarrow> world \<Rightarrow> (exn + (string \<times> sample) list) \<times> world" where
  "analyze_data_on out df w =
     (let group_means = groupby_mean df
      in case print_lines out analysis_lines w of
           Inl (e, w') \<Rightarrow> (Inl e, w')
         | Inr w1 \<Rightarrow>
             (case at_position (map fst group_means) 0 of
                Inl e \<Rightarrow> (Inl e, w1)
              | Inr first_name \<Rightarrow>
                  (case at_position (map (\<lambda>g. petal_length (snd g)) group_means) 0 of
                     Inl e \<Rightarrow> (Inl e, w1)
                   | Inr first_mean \<Rightarrow>
                       (case print_line out (Observation first_name first_mean) w1 of
                          Inl e \<Rightarrow> (Inl e, w1)
                        | Inr w2 \<Rightarrow>
                            (case at_position (map fst group_means) 2 of
                               Inl e \<Rightarrow> (Inl e, w2)
                             | Inr third_name \<Rightarrow>
                                 (case at_position (map (\<lambda>g. sepal_length (snd g)) group_means) 2 of
                                    Inl e \<Rightarrow> (Inl e, w2)
                                  | Inr third_mean \<Rightarrow>
                                      (case print_line out (Observation third_name third_mean) w2 of
                                         Inl e \<Rightarrow> (Inl e, w2)
                                       | Inr w3 \<Rightarrow> (Inr group_means, w3))))))))"

text \<open>The function on a standard output that can encode every line.\<close>

definition analyze_data :: "dataframe \<Rightarrow> world \<Rightarrow> (exn + (string \<times> sample) list) \<times> world" where
  "analyze_data df w = analyze_data_on (\<lambda>l. None) df w"

text \<open>The categories that occur in the rows, each once.\<close>

definition present_categories :: "dataframe \<Rightarrow> string list" where
  "present_categories df = remdups (List.map_filter species (rows df))"

subsection \<open>\<open>create_visualizations\<close>\<close>

text \<open>
  What matplotlib draws for a chart from a table is a parameter \<open>R\<close>: the bytes of the image,
  or the exception the drawing raises. \<open>plt.savefig\<close> then writes them to a fixed name.
\<close>

datatype chart = LineChart | BarChart | Histogram | ScatterPlot

fun chart_file :: "chart \<Rightarrow> string" where
  "chart_file LineChart = ''petal_length_trend.png''"
| "chart_file BarChart = ''avg_petal_length_bar.png''"
| "chart_file Histogram = ''sepal_length_histogram.png''"
| "chart_file ScatterPlot = ''sepal_vs_petal_scatter.png''"

definition plots_dir :: string where
  "plots_dir = ''Fetched_Images''"

fun save_charts ::
  "bool \<Rightarrow> (chart \<Rightarrow> dataframe \<Rightarrow> exn + bytes) \<Rightarrow> dataframe \<Rightarrow> chart list \<Rightarrow> directory
     \<Rightarrow> (exn + unit) \<times> directory" where
  "save_charts ro R df [] d = (Inr (), d)"
| "save_charts ro R df (c # cs) d =
     (case R c df of
        Inl e \<Rightarrow> (Inl e, d)
      | Inr png \<Rightarrow>
          (case write_file ro (chart_file c) png d of
             Inl e \<Rightarrow> (Inl e, d)
           | Inr d' \<Rightarrow> save_charts ro R df cs d'))"

text \<open>The four charts, in the order of the source. No \<open>try\<close> surrounds them.\<close>

definition create_visualizations ::
  "(chart \<Rightarrow> dataframe \<Rightarrow> exn + bytes) \<Rightarrow> dataframe \<Rightarrow> world \<Rightarrow> (exn + unit) \<times> world" where
  "create_visualizations R df w =
     (case makedirs (disk w plots_dir) of
        Inl e \<Rightarrow> (Inl e, w)
      | Inr d \<Rightarrow>
          (case save_charts (refuses_writes (disk w plots_dir)) R df
                  [LineChart, BarChart, Histogram, ScatterPlot] d of
             (r, d') \<Rightarrow>
               (r, if refuses_writes (disk w plots_dir) then w else put_dir plots_dir d' w)))"


section \<open>Vocabulary of the statements\<close>








section \<open>Concrete inputs\<close>

text \<open>A stand-in digest for the examples: the bytes themselves.\<close>

definition plain_digest :: "bytes \<Rightarrow> digest" where
  "plain_digest b = b"

definition empty_world :: world where
  "empty_world = \<lparr>disk = (\<lambda>p. Absent), stdout = []\<rparr>"

definition png_reply :: "string option \<Rightarrow> bytes \<Rightarrow> response" where
  "png_reply len b =
     \<lparr>status_code = 200, content_type = Some ''image/png'', content_length = len, content = b\<rparr>"

definition http_call :: "string \<Rightarrow> response \<Rightarrow> call" where
  "http_call p r =
     \<lparr>url = ''http://example.org'' @ p,
      urlparse_result = Some \<lparr>scheme = ''http'', path = p\<rparr>,
      get_result = Some r,
      timestamp = ''20240101_120000''\<rparr>"

definition iris_names :: "string list" where
  "iris_names = [''setosa'', ''versicolor'', ''virginica'']"

definition setosa_row :: row where
  "setosa_row =
     \<lparr>measures = \<lparr>sepal_length = Some (51 / 10), sepal_width = Some (35 / 10),
                   petal_length = Some (14 / 10), petal_width = Some (2 / 10)\<rparr>,
      species = Some ''setosa''\<rparr>"

definition setosa_only :: dataframe where
  "setosa_only = \<lparr>categories = iris_names, rows = [setosa_row]\<rparr>"

definition no_rows :: dataframe where
  "no_rows = \<lparr>categories = iris_names, rows = []\<rparr>"

definition cat_call :: "string \<Rightarrow> bytes \<Rightarrow> call" where
  "cat_call p b = http_call p (png_reply None b)"

definition locked_world :: world where
  "locked_world = \<lparr>disk = (\<lambda>p. if p = ''imgs'' then Folder [(''locked.png'', File False ''ZZZ'')] else Absent), stdout = []\<rparr>"

text \<open>A stand-in renderer: each chart's image is the text of its file name.\<close>

definition plain_render :: "chart \<Rightarrow> dataframe \<Rightarrow> exn + bytes" where
  "plain_render c df = Inr (chart_file c)"

definition gallery_world :: world where
  "gallery_world =
     \<lparr>disk = (\<lambda>p. if p = ''Fetched_Images'' then Folder [(''cat.png'', File True ''AAA'')] else Absent),
      stdout = []\<rparr>"

definition charted_world :: world where
  "charted_world =
     \<lparr>disk = (disk empty_world)(''Fetched_Images'' :=
         Folder [(''petal_length_trend.png'', File True ''petal_length_trend.png''),
                 (''avg_petal_length_bar.png'', File True ''avg_petal_length_bar.png''),
                 (''sepal_length_histogram.png'', File True ''sepal_length_histogram.png''),
                 (''sepal_vs_petal_scatter.png'', File True ''sepal_vs_petal_scatter.png'')]),
      stdout = []\<rparr>"









section \<open>Evaluation and basic facts\<close>

lemmas eval_strings = startswith_def lower_def lower_char_def basename_def splitext_def
  py_int_def strip_def is_space_def py_nat_def digit_val_def path_join_def



section \<open>The functions on a standard output that prints every line\<close>

text \<open>
  There no \<open>print\<close> raises; the functions then satisfy the equations one reads off the source
  with \<open>print\<close> as a plain append.
\<close>

lemma print_line_full [simp]: "print_line (\<lambda>l. None) l w = Inr (say l w)"
  by (simp add: print_line_def)

lemma print_lines_full: "print_lines (\<lambda>l. None) ls w = Inr (foldl (\<lambda>w l. say l w) w ls)"
  by (induction ls arbitrary: w) simp_all

lemma put_dir_say: "put_dir p d (say l w) = say l (put_dir p d w)"
  by (simp add: put_dir_def say_def)

lemma put_dir_put_dir: "put_dir p d' (put_dir p d w) = put_dir p d' w"
  by (simp add: put_dir_def)

lemma store_image_eq:
  "store_image H u output_dir filename b w =
     (let ro = refuses_writes (disk w output_dir)
      in case makedirs (disk w output_dir) of
        Inl e \<Rightarrow> (Inl e, w)
      | Inr d0 \<Rightarrow>
          (case write_file ro (temp_name filename) b d0 of
             Inl e \<Rightarrow> (Inl e, if ro then w else put_dir output_dir d0 w)
           | Inr d1 \<Rightarrow>
               (case calculate_file_hash H d1 (temp_name filename) of
                  Inl e \<Rightarrow> (Inl e, put_dir output_dir d1 w)
                | Inr file_hash \<Rightarrow>
                    (case find_duplicate H file_hash d1 (listdir d1) of
                       Inl e \<Rightarrow> (Inl e, put_dir output_dir d1 w)
                     | Inr (Some existing_file) \<Rightarrow>
                         (case remove ro (temp_name filename) d1 of
                            Inl e \<Rightarrow>
                              (Inl e, say (DuplicateLine u existing_file) (put_dir output_dir d1 w))
                          | Inr d2 \<Rightarrow>
                              (Inr False,
                               say (DuplicateLine u existing_file) (put_dir output_dir d2 w)))
                     | Inr None \<Rightarrow>
                         (case rename ro (temp_name filename)
                                 (get_unique_filename d1 filename) d1 of
                            Inl e \<Rightarrow> (Inl e, put_dir output_dir d1 w)
                          | Inr d2 \<Rightarrow>
                              (Inr True,
                               say (SavedLine (path_join output_dir (get_unique_filename d1 filename)))
                                 (say (FetchedLine filename) (put_dir output_dir d2 w))))))))"
  by (simp add: store_image_def store_image_on_def print_lines_full put_dir_say put_dir_put_dir Let_def
        split: sum.splits option.splits)

lemma try_fetch_eq:
  "try_fetch H c output_dir w =
     (case validate c of
        Raised e \<Rightarrow> (Inl e, w)
      | Rejected l \<Rightarrow> (Inr False, say l w)
      | Accepted filename b \<Rightarrow> store_image H (url c) output_dir filename b w)"
  by (simp add: try_fetch_def try_fetch_on_def store_image_def split: verdict.splits)

lemma fetch_on_full_output:
  "fetch_and_save_image_on (\<lambda>l. None) H c output_dir w
     = (Inr (fst (fetch_and_save_image H c output_dir w)), snd (fetch_and_save_image H c output_dir w))"
  by (simp add: fetch_and_save_image_def fetch_and_save_image_on_def try_fetch_def
        split: prod.splits sum.splits)

lemma fetch_and_save_image_eq:
  "fetch_and_save_image H c output_dir w =
     (case try_fetch H c output_dir w of
        (Inr ok, w') \<Rightarrow> (ok, w')
      | (Inl e, w') \<Rightarrow>
          if e = RequestException then (False, say (ConnectionErrorLine (url c)) w')
          else (False, say (ErrorLine (url c) e) w'))"
  by (simp add: fetch_and_save_image_def handler_line_def split: prod.splits sum.splits)

lemma analyze_data_eq:
  "analyze_data df w =
     (let group_means = groupby_mean df; w1 = foldl (\<lambda>w l. say l w) w analysis_lines
      in case at_position (map fst group_means) 0 of
           Inl e \<Rightarrow> (Inl e, w1)
         | Inr first_name \<Rightarrow>
             (case at_position (map (\<lambda>g. petal_length (snd g)) group_means) 0 of
                Inl e \<Rightarrow> (Inl e, w1)
              | Inr first_mean \<Rightarrow>
                  (let w2 = say (Observation first_name first_mean) w1
                   in case at_position (map fst group_means) 2 of
                        Inl e \<Rightarrow> (Inl e, w2)
                      | Inr third_name \<Rightarrow>
                          (case at_position (map (\<lambda>g. sepal_length (snd g)) group_means) 2 of
                             Inl e \<Rightarrow> (Inl e, w2)
                           | Inr third_mean \<Rightarrow>
                               (Inr group_means, say (Observation third_name third_mean) w2)))))"
  by (simp add: analyze_data_def analyze_data_on_def print_lines_full Let_def split: sum.splits)

section \<open>The fetcher: validation\<close>




section \<open>The analyzer\<close>

lemma keys_groupby_mean: "map fst (groupby_mean df) = categories df"
  by (simp add: groupby_mean_def comp_def)

lemma length_groupby_mean: "length (groupby_mean df) = length (categories df)"
  by (simp add: groupby_mean_def)

lemma groupby_mean_Nil: "(groupby_mean df = []) = (categories df = [])"
  by (simp add: groupby_mean_def)

text \<open>
  Claim C3, as the code has it. Whether the positional reads of \<open>analyze_data\<close> succeed depends
  on how many categories the label column declares, not on how many occur in the rows: with
  fewer than three declared categories a read raises \<open>IndexError\<close>, which nothing in
  \<open>analyze_data\<close> catches; otherwise the function returns the aggregate.
\<close>

theorem positional_read_by_declared_categories:
  "fst (analyze_data df w)
     = (if length (categories df) < 3 then Inl IndexError else Inr (groupby_mean df))"
proof (cases "categories df = []")
  case True
  then show ?thesis
    by (simp add: analyze_data_eq Let_def at_position_def length_groupby_mean)
next
  case False
  then show ?thesis
    by (simp add: analyze_data_eq Let_def at_position_def length_groupby_mean groupby_mean_Nil)
qed

theorem positional_read_by_declared_categories_witness:
  "length (categories no_rows) = 3
   \<and> fst (analyze_data no_rows empty_world) = Inr (groupby_mean no_rows)
   \<and> fst (analyze_data \<lparr>categories = [''setosa'', ''virginica''], rows = [setosa_row]\<rparr> empty_world)
       = Inl IndexError"
  using positional_read_by_declared_categories[of no_rows empty_world]
    positional_read_by_declared_categories[of
      "\<lparr>categories = [''setosa'', ''virginica''], rows = [setosa_row]\<rparr>" empty_world]
  by (simp add: no_rows_def iris_names_def)

text \<open>
  Claim C3 as stated fails: a table in which only one of the three declared categories occurs
  is analysed without any error, and the aggregate has its three keys.
\<close>

theorem fewer_categories_no_error_counterexample:
  "length (present_categories setosa_only) < 3
   \<and> fst (analyze_data setosa_only empty_world) = Inr (groupby_mean setosa_only)
   \<and> map fst (groupby_mean setosa_only) = [''setosa'', ''versicolor'', ''virginica'']"
  by (simp add: analyze_data_eq Let_def at_position_def groupby_mean_def setosa_only_def
        iris_names_def present_categories_def setosa_row_def)

text \<open>
  Claim C4, as the code has it. For a table whose labels are among the declared categories, the
  keys of the aggregate are the declared categories in their order; they include every category
  that occurs in the rows, and are exactly those only when every declared category occurs; the
  aggregate is empty only when no category is declared.
\<close>

theorem aggregate_keys:
  assumes "set (present_categories df) \<subseteq> set (categories df)"
  shows "map fst (groupby_mean df) = categories df
         \<and> set (present_categories df) \<subseteq> set (map fst (groupby_mean df))
         \<and> (set (map fst (groupby_mean df)) = set (present_categories df)
              \<longleftrightarrow> set (categories df) \<subseteq> set (present_categories df))
         \<and> (groupby_mean df = [] \<longleftrightarrow> categories df = [])"
  using assms by (auto simp: keys_groupby_mean) (auto simp: groupby_mean_def)

theorem aggregate_keys_witness:
  "set (present_categories setosa_only) \<subseteq> set (categories setosa_only)
   \<and> map fst (groupby_mean setosa_only) = [''setosa'', ''versicolor'', ''virginica'']
   \<and> present_categories setosa_only = [''setosa'']
   \<and> groupby_mean setosa_only \<noteq> []"
proof -
  have p: "present_categories setosa_only = [''setosa'']"
    by (simp add: present_categories_def setosa_only_def setosa_row_def)
  have c: "categories setosa_only = [''setosa'', ''versicolor'', ''virginica'']"
    by (simp add: setosa_only_def iris_names_def)
  have h: "set (present_categories setosa_only) \<subseteq> set (categories setosa_only)"
    by (simp add: p c)
  from aggregate_keys[OF h] h p c show ?thesis by auto
qed

text \<open>
  Claim C4 as stated fails: the table without rows has no category present, and its aggregate
  has three keys.
\<close>

theorem aggregate_keys_counterexample:
  "rows no_rows = [] \<and> present_categories no_rows = []
   \<and> map fst (groupby_mean no_rows) = [''setosa'', ''versicolor'', ''virginica'']"
  by (simp add: no_rows_def present_categories_def groupby_mean_def iris_names_def)

section \<open>The fetcher: storing\<close>

subsection \<open>Hashing and the duplicate scan\<close>


lemma fold_sha256_update: "fold sha256_update cs fed = fed @ concat cs"
  by (induction cs arbitrary: fed) (auto simp: sha256_update_def)

lemma concat_read_chunks: "0 < n \<Longrightarrow> concat (read_chunks n b) = b"
proof (induction n b rule: read_chunks.induct)
  case (1 n b)
  then show ?case by (subst read_chunks.simps) auto
qed

lemma calculate_file_hash_eq:
  "calculate_file_hash H d n =
     (case map_of d n of
        None \<Rightarrow> Inl FileNotFoundError
      | Some Dir \<Rightarrow> Inl IsADirectoryError
      | Some (File r b) \<Rightarrow> if r then Inr (H b) else Inl PermissionError)"
  by (simp add: calculate_file_hash_def fold_sha256_update concat_read_chunks
        split: option.splits node.splits)





subsection \<open>Directory updates\<close>










lemma get_unique_filename_free: "\<not> path_exists d (get_unique_filename d f)"
proof -
  have ff: "\<not> path_exists d (find_free d base ext c)" for base ext c
  proof (induction d base ext c rule: find_free.induct)
    case (1 d base ext counter)
    then show ?case by (subst find_free.simps) (auto simp: Let_def)
  qed
  show ?thesis by (auto simp: get_unique_filename_def ff split: prod.splits)
qed


lemma names_update: "set (listdir (AList.update k v d)) = insert k (set (listdir d))"
  using dom_update[of k v d] by (simp add: listdir_def)








subsection \<open>The two ways a validated image leaves \<open>store_image\<close> when nothing raises\<close>








lemmas eval_fetch = fetch_and_save_image_eq try_fetch_eq validate_def store_image_eq
  refuses_writes_def http_call_def png_reply_def is_valid_image_content_type_def declared_too_large_def
  derive_filename_def temp_name_def makedirs_def write_file_def calculate_file_hash_eq
  isfile_def listdir_def remove_def rename_def get_unique_filename_def path_exists_def
  find_free.simps suffixed_def str_nat.simps digit_char_def say_def put_dir_def
  empty_world_def plain_digest_def cat_call_def eval_strings

section \<open>The fetcher: two fetches in a row\<close>







section \<open>The fetcher: what an exception leaves behind\<close>

text \<open>
  Claim C2 fails on the code. In a directory that holds a file the process may not read, a
  valid image is written to its temporary name, the duplicate scan raises \<open>PermissionError\<close>
  on the unreadable file, the generic handler prints and returns \<open>False\<close>, and the temporary
  file stays in the directory. The rejection of a duplicate removes the temporary file; the
  handlers do not.
\<close>

theorem temporary_file_left_after_exception:
  "fetch_and_save_image plain_digest (cat_call ''/cat.png'' ''AAA'') ''imgs'' locked_world
   = (False,
      \<lparr>disk = (disk locked_world)(''imgs'' :=
                 Folder [(''locked.png'', File False ''ZZZ''),
                         (''temp_cat.png'', File True ''AAA'')]),
        stdout = [ErrorLine ''http://example.org/cat.png'' PermissionError]\<rparr>)"
  by (simp add: eval_fetch locked_world_def)

section \<open>The visualizer\<close>

lemma write_file_result:
  "write_file ro n b d = Inr d' \<Longrightarrow> \<not> ro \<and> (\<exists>r. d' = AList.update n (File r b) d)"
  by (auto simp: write_file_def split: option.splits node.splits if_splits)

lemma all_charts: "set [LineChart, BarChart, Histogram, ScatterPlot] = UNIV"
proof -
  have "c \<in> set [LineChart, BarChart, Histogram, ScatterPlot]" for c by (cases c) auto
  then show ?thesis by blast
qed

lemma chart_file_inj: "chart_file c = chart_file c' \<Longrightarrow> c = c'"
  by (cases c; cases c') auto


lemma chart_file_ok: "name_ok (chart_file c)"
  by (cases c) (simp_all add: name_ok_def)

lemma save_charts_writable:
  "save_charts ro R df (c # cs) d = (Inr (), d') \<Longrightarrow> \<not> ro"
  by (auto split: sum.splits dest: write_file_result)

lemma save_charts_result:
  "save_charts ro R df cs d = (Inr (), d') \<Longrightarrow> distinct cs \<Longrightarrow>
     (\<forall>c\<in>set cs. \<exists>r png. R c df = Inr png \<and> map_of d' (chart_file c) = Some (File r png))
   \<and> (\<forall>n. n \<notin> chart_file ` set cs \<longrightarrow> map_of d' n = map_of d n)"
proof (induction cs arbitrary: d)
  case Nil
  then show ?case by simp
next
  case (Cons c cs)
  from Cons.prems(1) obtain png d0 where png: "R c df = Inr png"
    and wr: "write_file ro (chart_file c) png d = Inr d0"
    and rest: "save_charts ro R df cs d0 = (Inr (), d')"
    by (auto split: sum.splits)
  from write_file_result[OF wr] obtain r where d0: "d0 = AList.update (chart_file c) (File r png) d"
    by blast
  from Cons.prems(2) have dc: "distinct cs" and cn: "c \<notin> set cs" by auto
  from Cons.IH[OF rest dc] have
    a: "\<forall>c\<in>set cs. \<exists>r png. R c df = Inr png \<and> map_of d' (chart_file c) = Some (File r png)"
    and b: "\<forall>n. n \<notin> chart_file ` set cs \<longrightarrow> map_of d' n = map_of d0 n" by auto
  from cn have "chart_file c \<notin> chart_file ` set cs" by (auto dest: chart_file_inj)
  with b have "map_of d' (chart_file c) = Some (File r png)" by (simp add: d0 update_conv')
  with png a have 1: "\<forall>x\<in>set (c # cs). \<exists>r png. R x df = Inr png \<and> map_of d' (chart_file x) = Some (File r png)"
    by auto
  have 2: "\<forall>n. n \<notin> chart_file ` set (c # cs) \<longrightarrow> map_of d' n = map_of d n"
    using b by (auto simp: d0 update_conv')
  from 1 2 show ?case by blast
qed

lemma save_charts_again:
  "\<forall>c\<in>set cs. \<exists>r png. R c df = Inr png \<and> map_of d (chart_file c) = Some (File r png)
   \<Longrightarrow> save_charts False R df cs d = (Inr (), d)"
proof (induction cs)
  case Nil
  then show ?case by simp
next
  case (Cons c cs)
  then obtain r png where png: "R c df = Inr png" and l: "map_of d (chart_file c) = Some (File r png)"
    by auto
  have "length (chart_file c) \<le> 255" and "CHR 0x00 \<notin> set (chart_file c)"
    using chart_file_ok[of c] by (simp_all add: name_ok_def)
  with l have "write_file False (chart_file c) png d = Inr d"
    by (simp add: write_file_def update_triv)
  with png Cons show ?case by simp
qed

lemma save_charts_names:
  "save_charts ro R df cs d = (Inr (), d') \<Longrightarrow> set (listdir d') = set (listdir d) \<union> chart_file ` set cs"
proof (induction cs arbitrary: d)
  case Nil
  then show ?case by simp
next
  case (Cons c cs)
  from Cons.prems(1) obtain png d0 where png: "R c df = Inr png"
    and wr: "write_file ro (chart_file c) png d = Inr d0"
    and rest: "save_charts ro R df cs d0 = (Inr (), d')"
    by (auto split: sum.splits)
  from write_file_result[OF wr] obtain r where d0: "d0 = AList.update (chart_file c) (File r png) d"
    by blast
  from Cons.IH[OF rest] show ?case by (auto simp: d0 names_update)
qed

lemma create_visualizations_result:
  assumes "create_visualizations R df w = (Inr (), w1)"
  shows "\<exists>d d1. makedirs (disk w plots_dir) = Inr d \<and> w1 = put_dir plots_dir d1 w
          \<and> save_charts False R df [LineChart, BarChart, Histogram, ScatterPlot] d = (Inr (), d1)
          \<and> (\<forall>c. \<exists>r png. R c df = Inr png \<and> map_of d1 (chart_file c) = Some (File r png))
          \<and> (\<forall>n. n \<notin> range chart_file \<longrightarrow> map_of d1 n = map_of d n)"
proof -
  from assms obtain d d1 where mk: "makedirs (disk w plots_dir) = Inr d"
    and sc0: "save_charts (refuses_writes (disk w plots_dir)) R df
                [LineChart, BarChart, Histogram, ScatterPlot] d = (Inr (), d1)"
    and w0: "w1 = (if refuses_writes (disk w plots_dir) then w else put_dir plots_dir d1 w)"
    by (auto simp: create_visualizations_def split: sum.splits prod.splits)
  from sc0 have wr: "\<not> refuses_writes (disk w plots_dir)" by (rule save_charts_writable)
  with sc0 w0 have sc: "save_charts False R df [LineChart, BarChart, Histogram, ScatterPlot] d = (Inr (), d1)"
    and w1: "w1 = put_dir plots_dir d1 w" by simp_all
  have "distinct [LineChart, BarChart, Histogram, ScatterPlot]" by simp
  from save_charts_result[OF sc this] mk w1 sc show ?thesis unfolding all_charts by blast
qed

lemma put_dir_same: "disk w p = Folder d \<Longrightarrow> put_dir p d w = w"
  by (simp add: put_dir_def fun_upd_idem)

lemma save_charts_into_empty:
  "save_charts False R df [LineChart, BarChart, Histogram, ScatterPlot] [] = (Inr (), d1)
   \<Longrightarrow> listdir d1 = map chart_file [LineChart, BarChart, Histogram, ScatterPlot]"
  by (auto simp: write_file_def listdir_def split: sum.splits)

lemmas eval_charts = create_visualizations_def makedirs_def write_file_def put_dir_def plots_dir_def
  refuses_writes_def

text \<open>
  Claim C7, as the code has it. After a run of \<open>create_visualizations\<close> that raised nothing,
  \<open>Fetched_Images\<close> is a directory in which each of the four fixed names is a regular file
  holding the image drawn for its chart, every other name holds what it held before, and the
  names are those of before together with the four; when the directory was absent or empty
  before, its listing is exactly the four names. No other directory and no output changes. A
  second run from that state raises nothing and leaves the state as it is.
\<close>

theorem charts_written_beside_the_rest:
  assumes "create_visualizations R df w = (Inr (), w1)"
  shows "\<exists>d d1. makedirs (disk w plots_dir) = Inr d \<and> disk w1 plots_dir = Folder d1
          \<and> (\<forall>c. \<exists>r png. R c df = Inr png \<and> map_of d1 (chart_file c) = Some (File r png))
          \<and> (\<forall>n. n \<notin> range chart_file \<longrightarrow> map_of d1 n = map_of d n)
          \<and> set (listdir d1) = set (listdir d) \<union> range chart_file
          \<and> (d = [] \<longrightarrow> listdir d1 = map chart_file [LineChart, BarChart, Histogram, ScatterPlot])
          \<and> (\<forall>p. p \<noteq> plots_dir \<longrightarrow> disk w1 p = disk w p)
          \<and> stdout w1 = stdout w
          \<and> create_visualizations R df w1 = (Inr (), w1)"
proof -
  from create_visualizations_result[OF assms] obtain d d1 where
    mk: "makedirs (disk w plots_dir) = Inr d" and w1: "w1 = put_dir plots_dir d1 w"
    and sc: "save_charts False R df [LineChart, BarChart, Histogram, ScatterPlot] d = (Inr (), d1)"
    and files: "\<forall>c. \<exists>r png. R c df = Inr png \<and> map_of d1 (chart_file c) = Some (File r png)"
    and others: "\<forall>n. n \<notin> range chart_file \<longrightarrow> map_of d1 n = map_of d n"
    by blast
  have dk: "disk w1 plots_dir = Folder d1" by (simp add: w1 put_dir_def)
  have nm: "set (listdir d1) = set (listdir d) \<union> range chart_file"
    using save_charts_names[OF sc] by (simp only: all_charts)
  have em: "d = [] \<longrightarrow> listdir d1 = map chart_file [LineChart, BarChart, Histogram, ScatterPlot]"
    using sc save_charts_into_empty by blast
  have fr: "\<forall>p. p \<noteq> plots_dir \<longrightarrow> disk w1 p = disk w p" by (simp add: w1 put_dir_def)
  have so: "stdout w1 = stdout w" by (simp add: w1 put_dir_def)
  have "save_charts False R df [LineChart, BarChart, Histogram, ScatterPlot] d1 = (Inr (), d1)"
    using files by (intro save_charts_again) blast
  then have again: "create_visualizations R df w1 = (Inr (), w1)"
    using dk by (simp add: create_visualizations_def makedirs_def refuses_writes_def put_dir_same)
  from mk dk files others nm em fr so again show ?thesis by blast
qed

theorem charts_written_beside_the_rest_witness:
  "create_visualizations plain_render setosa_only empty_world = (Inr (), charted_world)
   \<and> create_visualizations plain_render setosa_only charted_world = (Inr (), charted_world)
   \<and> disk charted_world plots_dir =
       Folder [(''petal_length_trend.png'', File True ''petal_length_trend.png''),
               (''avg_petal_length_bar.png'', File True ''avg_petal_length_bar.png''),
               (''sepal_length_histogram.png'', File True ''sepal_length_histogram.png''),
               (''sepal_vs_petal_scatter.png'', File True ''sepal_vs_petal_scatter.png'')]"
proof -
  have h: "create_visualizations plain_render setosa_only empty_world = (Inr (), charted_world)"
    by (simp add: eval_charts plain_render_def empty_world_def charted_world_def)
  from charts_written_beside_the_rest[OF h]
  have "create_visualizations plain_render setosa_only charted_world = (Inr (), charted_world)"
    by blast
  with h show ?thesis by (simp add: charted_world_def plots_dir_def)
qed

text \<open>
  Claim C7 as stated fails: when \<open>Fetched_Images\<close> already holds a fetched image, five files
  are there after a successful run.
\<close>

theorem exactly_four_files_counterexample:
  "create_visualizations plain_render setosa_only gallery_world
   = (Inr (),
      \<lparr>disk = (disk gallery_world)(''Fetched_Images'' :=
          Folder [(''cat.png'', File True ''AAA''),
                  (''petal_length_trend.png'', File True ''petal_length_trend.png''),
                  (''avg_petal_length_bar.png'', File True ''avg_petal_length_bar.png''),
                  (''sepal_length_histogram.png'', File True ''sepal_length_histogram.png''),
                  (''sepal_vs_petal_scatter.png'', File True ''sepal_vs_petal_scatter.png'')]),
       stdout = []\<rparr>)"
  by (simp add: eval_charts plain_render_def gallery_world_def)

section \<open>The shared directory\<close>




section \<open>The fetcher: what reaches the caller\<close>








section \<open>The fetcher: paths on which nothing raises\<close>

text \<open>
  Whenever the body of the \<open>try\<close> ends in a \<open>return\<close> after the image was accepted, be it
  the duplicate rejection or the success, the temporary name is gone from the directory. The
  temporary file can only stay behind through an exception.
\<close>

lemma temporary_file_gone_without_exception:
  assumes v: "validate c = Accepted f b"
    and t: "try_fetch_on out H c output_dir w = (Inr ok, w')"
  shows "\<exists>d'. disk w' output_dir = Folder d' \<and> map_of d' (temp_name f) = None"
proof -
  from v t have s: "store_image_on out H (url c) output_dir f b w = (Inr ok, w')"
    by (simp add: try_fetch_on_def)
  then consider
      (dup) ro d0 d1 d2 e where "write_file ro (temp_name f) b d0 = Inr d1"
        "remove ro (temp_name f) d1 = Inr d2"
        "w' = put_dir output_dir d2 (say (DuplicateLine (url c) e) (put_dir output_dir d1 w))"
    | (new) ro d0 d1 d2 where "write_file ro (temp_name f) b d0 = Inr d1"
        "rename ro (temp_name f) (get_unique_filename d1 f) d1 = Inr d2"
        "w' = say (SavedLine (path_join output_dir (get_unique_filename d1 f)))
                (say (FetchedLine f) (put_dir output_dir d2 w))"
    by (auto simp: store_image_on_def Let_def print_line_def
          split: sum.splits option.splits if_splits)
  then show ?thesis
  proof cases
    case dup
    from dup(2) have "d2 = AList.delete (temp_name f) d1"
      by (auto simp: remove_def split: option.splits node.splits if_splits)
    with dup(3) show ?thesis by (simp add: say_def put_dir_def delete_conv')
  next
    case new
    from write_file_result[OF new(1)] have "temp_name f \<in> set (listdir d1)"
      by (auto simp: names_update)
    with get_unique_filename_free[of d1 f] have ne: "get_unique_filename d1 f \<noteq> temp_name f"
      by (auto simp: path_exists_def)
    from new(2) obtain x where "d2 = AList.update (get_unique_filename d1 f) x (AList.delete (temp_name f) d1)"
      by (auto simp: rename_def split: option.splits if_splits node.splits)
    with ne new(3) show ?thesis by (simp add: say_def put_dir_def delete_conv' update_conv')
  qed
qed

end
